theory Spec2Isabelle
  imports Complex_Main
begin

section \<open>Errors, value types and metadata\<close>

text \<open>
  Python exceptions are values of \<open>error\<close>; a call that may raise returns \<open>error + 'a\<close>
  with \<open>Inl\<close> carrying the exception. Python floats are idealised as \<open>real\<close>:
  rounding of the floating-point operations is not part of this model.
\<close>

datatype error =
    ValidationError
  | SchedulerAlreadyRunningError
  | SchedulerNotRunningError
  | ResolutionUnavailable
  | NoEmissionFactorFound
  | IOError
  | IndexError
  | Exception string

text \<open>
  The value types of \<open>co2_tracker.units\<close> as the tracker uses them: a power in watts,
  a time in seconds (\<open>duration.seconds\<close>) and an energy in kWh (\<open>_total_energy.kwh\<close>).
\<close>

record Power =
  W :: real

record Time =
  seconds :: real

record Energy =
  kwh :: real

text \<open>
  Modelled from the spec: \<open>Time.from_seconds\<close> is missing from the sources. A time wraps
  a non-negative number of seconds; a negative magnitude is rejected with a validation error.
\<close>

definition Time_from_seconds :: "real \<Rightarrow> error + Time" where
  "Time_from_seconds s = (if s < 0 then Inl ValidationError else Inr \<lparr>seconds = s\<rparr>)"

text \<open>
  Modelled from the spec: \<open>Energy.from_energy\<close> is missing from the sources. An energy
  wraps a non-negative number of kWh; a negative magnitude is rejected with a validation
  error.
\<close>

definition Energy_from_energy :: "real \<Rightarrow> error + Energy" where
  "Energy_from_energy k = (if k < 0 then Inl ValidationError else Inr \<lparr>kwh = k\<rparr>)"

text \<open>
  Modelled from the spec: \<open>Energy.from_power_and_time\<close> is missing from the sources;
  \<open>Energy.from_power_and_time(power, duration) = power(W) * duration(s) / 3600 / 1000\<close>
  in kWh.
\<close>

definition Energy_from_power_and_time :: "Power \<Rightarrow> Time \<Rightarrow> error + Energy" where
  "Energy_from_power_and_time pw tm =
     Energy_from_energy (W pw * seconds tm / 3600 / 1000)"

text \<open>
  Modelled from the spec: the addition of energies (\<open>+=\<close> in \<open>_measure_power\<close>) is
  missing from the sources; adding two energies sums the underlying magnitudes.
\<close>

definition Energy_add :: "Energy \<Rightarrow> Energy \<Rightarrow> Energy" where
  "Energy_add a b = \<lparr>kwh = kwh a + kwh b\<rparr>"

text \<open>
  Modelled from the spec: \<open>CO2EmissionsPerKwh.from_g_per_kwh(g).kgs_per_kwh\<close> is missing
  from the sources; emission factors in g CO2/kWh convert to kg CO2/kWh by \<open>kg = g / 1000\<close>.
\<close>

definition kgs_per_kwh_from_g_per_kwh :: "real \<Rightarrow> real" where
  "kgs_per_kwh_from_g_per_kwh g = g / 1000"

text \<open>
  The metadata classes of \<open>co2_tracker.external.geography\<close> and the record
  \<open>CO2Data\<close> of \<open>co2_tracker.output\<close>, with the fields that \<open>stop\<close> reads and
  writes. A field that may hold \<open>None\<close> is an option.
\<close>

record GeoMetadata =
  GeoMetadata_country_iso_code :: "string option"
  GeoMetadata_country_name :: "string option"
  GeoMetadata_region :: "string option"

record CloudMetadata =
  CloudMetadata_provider :: "string option"
  CloudMetadata_region :: "string option"

text \<open>
  Modelled from the spec: the property \<open>CloudMetadata.is_on_private_infra\<close> is missing
  from the sources; it is true iff the provider is absent.
\<close>

definition is_on_private_infra :: "CloudMetadata \<Rightarrow> bool" where
  "is_on_private_infra cloud = (CloudMetadata_provider cloud = None)"

record CO2Data =
  timestamp :: string
  experiment_id :: string
  project_name :: string
  duration :: real
  emissions :: real
  energy_consumed :: real
  country_name :: "string option"
  country_iso_code :: "string option"
  region :: "string option"
  on_cloud :: string
  cloud_provider :: "string option"
  cloud_region :: "string option"

section \<open>The environment of a tracker\<close>

text \<open>
  Output sinks: the only sink the sources construct is \<open>FileOutput(path)\<close>.
\<close>

datatype BaseOutput = FileOutput string

text \<open>
  Everything a tracker calls but does not define is a field of \<open>env\<close>: the GPU
  detection, the emissions calculator (class Emissions), the two metadata resolvers of the
  online tracker, the formatting of the wall clock, the UUID generator and the outcome of
  writing to a sink. Each of them may raise, as the calculator does on an unknown key and
  the resolvers do when the service is unavailable.
\<close>

record env =
  is_gpu_details_available :: bool
  get_private_infra_emissions :: "Energy \<Rightarrow> GeoMetadata \<Rightarrow> error + real"
  get_cloud_emissions :: "Energy \<Rightarrow> CloudMetadata \<Rightarrow> error + real"
  get_cloud_country_name :: "CloudMetadata \<Rightarrow> error + string"
  get_cloud_country_iso_code :: "CloudMetadata \<Rightarrow> error + string"
  get_cloud_geo_region :: "CloudMetadata \<Rightarrow> error + string"
  GeoMetadata_from_geo_js :: "error + GeoMetadata"
  CloudMetadata_from_co2_tracker_utils :: "error + CloudMetadata"
  strftime :: "real \<Rightarrow> string"
  uuid4 :: "nat \<Rightarrow> string"
  out_raises :: "BaseOutput \<Rightarrow> error option"

datatype level = WARNING | ERROR

text \<open>
  What a run does is observed as an ordered trace of events: log messages, the start and
  the shutdown of the scheduler, the call of a tracked function and the records handed to
  the sinks. \<open>Compute_emissions\<close> marks the point where \<open>stop\<close> reads the
  accumulated energy for the calculator, and \<open>CO2Data_created\<close> the construction of
  the emissions record.
\<close>

datatype event =
    Log level string
  | Scheduler_start
  | Scheduler_shutdown
  | Compute_emissions Energy
  | CO2Data_created CO2Data
  | Sink_out BaseOutput CO2Data
  | Function_called

record world =
  clock :: real
  uuid_calls :: nat
  events :: "event list"

definition emit :: "event \<Rightarrow> world \<Rightarrow> world" where
  "emit e w = w\<lparr>events := events w @ [e]\<rparr>"

text \<open>The records that reached a sink, in order, and the records that were constructed.\<close>

fun sink_outs :: "event list \<Rightarrow> (BaseOutput \<times> CO2Data) list" where
  "sink_outs [] = []"
| "sink_outs (Sink_out p d # es) = (p, d) # sink_outs es"
| "sink_outs (e # es) = sink_outs es"

fun records_created :: "event list \<Rightarrow> CO2Data list" where
  "records_created [] = []"
| "records_created (CO2Data_created d # es) = d # records_created es"
| "records_created (e # es) = records_created es"

section \<open>The background scheduler\<close>

text \<open>
  \<open>BackgroundScheduler\<close> is the scheduler of the apscheduler library: \<open>start\<close> raises
  SchedulerAlreadyRunningError unless the scheduler is stopped, \<open>shutdown\<close> raises
  SchedulerNotRunningError when it is stopped and otherwise returns once no job is running.
  A job is kept as its interval in seconds.
\<close>

datatype scheduler_state = STATE_STOPPED | STATE_RUNNING

record scheduler =
  jobs :: "int list"
  state :: scheduler_state

definition BackgroundScheduler :: scheduler where
  "BackgroundScheduler = \<lparr>jobs = [], state = STATE_STOPPED\<rparr>"

definition add_job :: "int \<Rightarrow> scheduler \<Rightarrow> scheduler" where
  "add_job secs s = s\<lparr>jobs := jobs s @ [secs]\<rparr>"

definition scheduler_start :: "scheduler \<Rightarrow> error + scheduler" where
  "scheduler_start s =
     (if state s \<noteq> STATE_STOPPED then Inl SchedulerAlreadyRunningError
      else Inr (s\<lparr>state := STATE_RUNNING\<rparr>))"

definition scheduler_shutdown :: "scheduler \<Rightarrow> error + scheduler" where
  "scheduler_shutdown s =
     (if state s = STATE_STOPPED then Inl SchedulerNotRunningError
      else Inr (s\<lparr>state := STATE_STOPPED\<rparr>))"

section \<open>BaseCO2Tracker and its two subclasses\<close>

text \<open>
  The subclass of a tracker, with the attributes it adds: \<open>OfflineCO2Tracker\<close> keeps
  \<open>_country_iso_code\<close>, \<open>_country_name\<close> and \<open>_region\<close>; \<open>CO2Tracker\<close> adds none.
\<close>

datatype tracker_class =
    OfflineCO2Tracker string string "string option"
  | CO2Tracker

record tracker =
  self_class :: tracker_class
  self_project_name :: string
  self_measure_power_secs :: int
  self_start_time :: "real option"
  self_output_dir :: string
  self_total_energy :: Energy
  self_scheduler :: scheduler
  self_is_gpu_available :: bool
  persistence_objs :: "BaseOutput list"

text \<open>\<open>os.path.join(a, b)\<close> on a POSIX system.\<close>

definition path_join :: "string \<Rightarrow> string \<Rightarrow> string" where
  "path_join a b =
     (if b \<noteq> [] \<and> hd b = CHR ''/'' then b
      else if a = [] \<or> last a = CHR ''/'' then a @ b
      else a @ ''/'' @ b)"

definition BaseCO2Tracker_init ::
  "env \<Rightarrow> tracker_class \<Rightarrow> string \<Rightarrow> int \<Rightarrow> string \<Rightarrow> bool \<Rightarrow> error + tracker" where
  "BaseCO2Tracker_init en sub project_name' measure_power_secs output_dir save_to_file =
     (case Energy_from_energy 0 of
        Inl e \<Rightarrow> Inl e
      | Inr zero \<Rightarrow>
          Inr \<lparr>self_class = sub,
               self_project_name = project_name',
               self_measure_power_secs = measure_power_secs,
               self_start_time = None,
               self_output_dir = output_dir,
               self_total_energy = zero,
               self_scheduler = add_job measure_power_secs BackgroundScheduler,
               self_is_gpu_available = is_gpu_details_available en,
               persistence_objs =
                 (if save_to_file then [FileOutput (path_join output_dir ''emissions.csv'')]
                  else [])\<rparr>)"

definition OfflineCO2Tracker_init ::
  "env \<Rightarrow> string option \<Rightarrow> string option \<Rightarrow> string option \<Rightarrow>
   string \<Rightarrow> int \<Rightarrow> string \<Rightarrow> bool \<Rightarrow> error + tracker" where
  "OfflineCO2Tracker_init en country_iso_code' country_name' region'
       project_name' measure_power_secs output_dir save_to_file =
     BaseCO2Tracker_init en
       (OfflineCO2Tracker
          (case country_iso_code' of None \<Rightarrow> ''CAN'' | Some c \<Rightarrow> c)
          (case country_name' of None \<Rightarrow> ''Canada'' | Some n \<Rightarrow> n)
          region')
       project_name' measure_power_secs output_dir save_to_file"

definition CO2Tracker_init ::
  "env \<Rightarrow> string \<Rightarrow> int \<Rightarrow> string \<Rightarrow> bool \<Rightarrow> error + tracker" where
  "CO2Tracker_init en project_name' measure_power_secs output_dir save_to_file =
     BaseCO2Tracker_init en CO2Tracker project_name' measure_power_secs output_dir save_to_file"

definition get_geo_metadata :: "env \<Rightarrow> tracker \<Rightarrow> error + GeoMetadata" where
  "get_geo_metadata en t =
     (case self_class t of
        OfflineCO2Tracker code nm rg \<Rightarrow>
          Inr \<lparr>GeoMetadata_country_iso_code = Some code,
               GeoMetadata_country_name = Some nm,
               GeoMetadata_region = rg\<rparr>
      | CO2Tracker \<Rightarrow> GeoMetadata_from_geo_js en)"

definition get_cloud_metadata :: "env \<Rightarrow> tracker \<Rightarrow> error + CloudMetadata" where
  "get_cloud_metadata en t =
     (case self_class t of
        OfflineCO2Tracker code nm rg \<Rightarrow>
          Inr \<lparr>CloudMetadata_provider = None, CloudMetadata_region = None\<rparr>
      | CO2Tracker \<Rightarrow> CloudMetadata_from_co2_tracker_utils en)"

subsection \<open>The periodic sampling task\<close>

text \<open>
  \<open>_measure_power\<close>, with the reading of \<open>self._hardware.total_power\<close> at the firing
  as the argument \<open>total_power\<close>.
\<close>

definition measure_power :: "Power \<Rightarrow> tracker \<Rightarrow> error + tracker" where
  "measure_power total_power t =
     (case Time_from_seconds (real_of_int (self_measure_power_secs t)) of
        Inl e \<Rightarrow> Inl e
      | Inr tm \<Rightarrow>
          (case Energy_from_power_and_time total_power tm of
             Inl e \<Rightarrow> Inl e
           | Inr energy \<Rightarrow>
               Inr (t\<lparr>self_total_energy := Energy_add (self_total_energy t) energy\<rparr>)))"

text \<open>
  One firing of the job by the scheduler: only a running scheduler fires, and a job that
  raises is logged by the scheduler and leaves the tracker as it was.
\<close>

definition fire :: "Power \<Rightarrow> tracker \<Rightarrow> tracker" where
  "fire total_power t =
     (if state (self_scheduler t) = STATE_RUNNING
      then (case measure_power total_power t of Inl e \<Rightarrow> t | Inr t' \<Rightarrow> t')
      else t)"

fun firings :: "Power list \<Rightarrow> tracker \<Rightarrow> tracker" where
  "firings [] t = t"
| "firings (p # ps) t = firings ps (fire p t)"

subsection \<open>start and stop\<close>

definition start :: "tracker \<Rightarrow> world \<Rightarrow> (error + unit) \<times> tracker \<times> world" where
  "start t w =
     (if \<not> self_is_gpu_available t then
        (Inr (), t, emit (Log WARNING ''No GPU available'') w)
      else if self_start_time t \<noteq> None then
        (Inr (), t, emit (Log WARNING ''Already started tracking'') w)
      else
        (let t1 = t\<lparr>self_start_time := Some (clock w)\<rparr> in
         case scheduler_start (self_scheduler t1) of
           Inl e \<Rightarrow> (Inl e, t1, w)
         | Inr s \<Rightarrow> (Inr (), t1\<lparr>self_scheduler := s\<rparr>, emit Scheduler_start w)))"

text \<open>
  Modelled from the spec: the sink classes of \<open>co2_tracker.output\<close> are missing from the
  sources. \<open>out(record)\<close> hands the record to the sink (the file sink appends it as a row)
  and may fail with an I/O error, in which case nothing is written.
\<close>

definition BaseOutput_out ::
  "env \<Rightarrow> BaseOutput \<Rightarrow> CO2Data \<Rightarrow> world \<Rightarrow> (error + unit) \<times> world" where
  "BaseOutput_out en persistence data w =
     (case out_raises en persistence of
        Some e \<Rightarrow> (Inl e, w)
      | None \<Rightarrow> (Inr (), emit (Sink_out persistence data) w))"

text \<open>The loop \<open>for persistence in self.persistence_objs: persistence.out(data)\<close>.\<close>

fun persist :: "env \<Rightarrow> BaseOutput list \<Rightarrow> CO2Data \<Rightarrow> world \<Rightarrow> (error + unit) \<times> world" where
  "persist en [] data w = (Inr (), w)"
| "persist en (persistence # rest) data w =
     (case BaseOutput_out en persistence data w of
        (Inl e, w') \<Rightarrow> (Inl e, w')
      | (Inr u, w') \<Rightarrow> persist en rest data w')"

text \<open>
  The branch on \<open>cloud.is_on_private_infra\<close> of \<open>stop\<close> and the construction of the
  record from its outcome; \<open>ts\<close> is the formatted \<open>datetime.now()\<close> and \<open>eid\<close> the
  fresh UUID.
\<close>

definition assemble ::
  "env \<Rightarrow> tracker \<Rightarrow> CloudMetadata \<Rightarrow> GeoMetadata \<Rightarrow> Time \<Rightarrow> string \<Rightarrow> string \<Rightarrow>
   error + CO2Data" where
  "assemble en t cloud geo dur ts eid =
     (if is_on_private_infra cloud then
        (case get_private_infra_emissions en (self_total_energy t) geo of
           Inl e \<Rightarrow> Inl e
         | Inr em \<Rightarrow>
             Inr \<lparr>timestamp = ts, experiment_id = eid,
                  project_name = self_project_name t,
                  duration = seconds dur,
                  emissions = em,
                  energy_consumed = kwh (self_total_energy t),
                  country_name = GeoMetadata_country_name geo,
                  country_iso_code = GeoMetadata_country_iso_code geo,
                  region = GeoMetadata_region geo,
                  on_cloud = ''N'',
                  cloud_provider = Some [],
                  cloud_region = Some []\<rparr>)
      else
        (case get_cloud_emissions en (self_total_energy t) cloud of
           Inl e \<Rightarrow> Inl e
         | Inr em \<Rightarrow>
        (case get_cloud_country_name en cloud of
           Inl e \<Rightarrow> Inl e
         | Inr cname \<Rightarrow>
        (case get_cloud_country_iso_code en cloud of
           Inl e \<Rightarrow> Inl e
         | Inr code \<Rightarrow>
        (case get_cloud_geo_region en cloud of
           Inl e \<Rightarrow> Inl e
         | Inr rg \<Rightarrow>
             Inr \<lparr>timestamp = ts, experiment_id = eid,
                  project_name = self_project_name t,
                  duration = seconds dur,
                  emissions = em,
                  energy_consumed = kwh (self_total_energy t),
                  country_name = Some cname,
                  country_iso_code = Some code,
                  region = Some rg,
                  on_cloud = ''Y'',
                  cloud_provider = CloudMetadata_provider cloud,
                  cloud_region = CloudMetadata_region cloud\<rparr>)))))"

definition stop :: "env \<Rightarrow> tracker \<Rightarrow> world \<Rightarrow> (error + real option) \<times> tracker \<times> world" where
  "stop en t w =
     (case self_start_time t of
        None \<Rightarrow> (Inr None, t, emit (Log ERROR ''Need to first start the tracker'') w)
      | Some start_time \<Rightarrow>
     (case scheduler_shutdown (self_scheduler t) of
        Inl e \<Rightarrow> (Inl e, t, w)
      | Inr s \<Rightarrow>
     (let t1 = t\<lparr>self_scheduler := s\<rparr>; w1 = emit Scheduler_shutdown w in
      case get_cloud_metadata en t1 of
        Inl e \<Rightarrow> (Inl e, t1, w1)
      | Inr cloud \<Rightarrow>
     (case get_geo_metadata en t1 of
        Inl e \<Rightarrow> (Inl e, t1, w1)
      | Inr geo \<Rightarrow>
     (case Time_from_seconds (clock w1 - start_time) of
        Inl e \<Rightarrow> (Inl e, t1, w1)
      | Inr dur \<Rightarrow>
     (let w2 = emit (Compute_emissions (self_total_energy t1)) w1 in
      case assemble en t1 cloud geo dur (strftime en (clock w2)) (uuid4 en (uuid_calls w2)) of
        Inl e \<Rightarrow> (Inl e, t1, w2)
      | Inr data \<Rightarrow>
     (let w3 = emit (CO2Data_created data) (w2\<lparr>uuid_calls := Suc (uuid_calls w2)\<rparr>) in
      case persist en (persistence_objs t1) data w3 of
        (Inl e, w4) \<Rightarrow> (Inl e, t1, w4)
      | (Inr u, w4) \<Rightarrow> (Inr (Some (emissions data)), t1, w4))))))))"

section \<open>The decorator track_co2\<close>

text \<open>
  The call \<open>fn(*args, **kwargs)\<close> of a tracked function: \<open>fn\<close> acts on the world and
  returns or raises; \<open>readings\<close> are the values of \<open>total_power\<close> at the wake-ups of
  the sampling job while \<open>fn\<close> runs.
\<close>

definition call_fn ::
  "('a \<Rightarrow> world \<Rightarrow> (error + 'b) \<times> world) \<Rightarrow> 'a \<Rightarrow> Power list \<Rightarrow> tracker \<Rightarrow> world \<Rightarrow>
   (error + 'b) \<times> tracker \<times> world" where
  "call_fn fn args readings t w =
     (case fn args (emit Function_called w) of
        (r, w') \<Rightarrow> (r, firings readings t, w'))"

text \<open>
  \<open>wrapped_fn\<close>, the function the decorator returns, with the decorator's own arguments
  first. A tracker built by the decorator has the default \<open>measure_power_secs = 15\<close> and
  \<open>save_to_file = True\<close>. The Python \<open>None\<close> that the wrapper returns is \<open>None\<close>.
\<close>

definition wrapped_fn ::
  "env \<Rightarrow> string \<Rightarrow> string \<Rightarrow> bool \<Rightarrow> string option \<Rightarrow> string option \<Rightarrow> string option \<Rightarrow>
   ('a \<Rightarrow> world \<Rightarrow> (error + 'b) \<times> world) \<Rightarrow> 'a \<Rightarrow> Power list \<Rightarrow> world \<Rightarrow>
   (error + 'b option) \<times> world" where
  "wrapped_fn en project_name' output_dir offline country_iso_code' country_name' region'
       fn args readings w =
     (if offline then
        (if country_iso_code' = None then
           (Inl (Exception ''Needs ISO Code of the Country for Offline mode''), w)
         else
           (case OfflineCO2Tracker_init en country_iso_code' country_name' region'
                   project_name' 15 output_dir True of
              Inl e \<Rightarrow> (Inl e, w)
            | Inr tracker \<Rightarrow>
           (case start tracker w of
              (Inl e, t1, w1) \<Rightarrow> (Inl e, w1)
            | (Inr u, t1, w1) \<Rightarrow>
           (case call_fn fn args readings t1 w1 of
              (Inl e, t2, w2) \<Rightarrow> (Inl e, w2)
            | (Inr v, t2, w2) \<Rightarrow>
           (case stop en t2 w2 of
              (Inl e, t3, w3) \<Rightarrow> (Inl e, w3)
            | (Inr em, t3, w3) \<Rightarrow> (Inr None, w3))))))
      else
        (case CO2Tracker_init en project_name' 15 output_dir True of
           Inl e \<Rightarrow> (Inl e, w)
         | Inr tracker \<Rightarrow>
        (case start tracker w of
           (Inl e, t1, w1) \<Rightarrow> (Inl e, w1)
         | (Inr u, t1, w1) \<Rightarrow>
        (case call_fn fn args readings t1 w1 of
           (Inl e, t2, w2) \<Rightarrow> (Inl e, w2)
         | (Inr v, t2, w2) \<Rightarrow>
        (case stop en t2 w2 of
           (Inl e, t3, w3) \<Rightarrow> (Inl e, w3)
         | (Inr em, t3, w3) \<Rightarrow> (Inr None, w3))))))"

text \<open>
  The explicit API as the spec words it: construct the corresponding tracker
  (\<open>OfflineCO2Tracker\<close> when \<open>offline\<close>, \<open>CO2Tracker\<close> otherwise), then execute
  \<open>start()\<close>, \<open>fn(arguments)\<close>, \<open>stop()\<close> in that order.
\<close>

definition construct_tracker ::
  "env \<Rightarrow> string \<Rightarrow> string \<Rightarrow> bool \<Rightarrow> string option \<Rightarrow> string option \<Rightarrow> string option \<Rightarrow>
   error + tracker" where
  "construct_tracker en project_name' output_dir offline country_iso_code' country_name' region' =
     (if offline
      then OfflineCO2Tracker_init en country_iso_code' country_name' region'
             project_name' 15 output_dir True
      else CO2Tracker_init en project_name' 15 output_dir True)"

definition start_fn_stop ::
  "env \<Rightarrow> tracker \<Rightarrow> ('a \<Rightarrow> world \<Rightarrow> (error + 'b) \<times> world) \<Rightarrow> 'a \<Rightarrow> Power list \<Rightarrow> world \<Rightarrow>
   (error + 'b option) \<times> world" where
  "start_fn_stop en tracker fn args readings w =
     (case start tracker w of
        (Inl e, t1, w1) \<Rightarrow> (Inl e, w1)
      | (Inr u, t1, w1) \<Rightarrow>
     (case call_fn fn args readings t1 w1 of
        (Inl e, t2, w2) \<Rightarrow> (Inl e, w2)
      | (Inr v, t2, w2) \<Rightarrow>
     (case stop en t2 w2 of
        (Inl e, t3, w3) \<Rightarrow> (Inl e, w3)
      | (Inr em, t3, w3) \<Rightarrow> (Inr None, w3))))"

definition explicit_api ::
  "env \<Rightarrow> string \<Rightarrow> string \<Rightarrow> bool \<Rightarrow> string option \<Rightarrow> string option \<Rightarrow> string option \<Rightarrow>
   ('a \<Rightarrow> world \<Rightarrow> (error + 'b) \<times> world) \<Rightarrow> 'a \<Rightarrow> Power list \<Rightarrow> world \<Rightarrow>
   (error + 'b option) \<times> world" where
  "explicit_api en project_name' output_dir offline country_iso_code' country_name' region'
       fn args readings w =
     (case construct_tracker en project_name' output_dir offline
             country_iso_code' country_name' region' of
        Inl e \<Rightarrow> (Inl e, w)
      | Inr tracker \<Rightarrow> start_fn_stop en tracker fn args readings w)"

section \<open>The dashboard data: cloud emissions bar chart\<close>

text \<open>
  A row of the cloud emissions table after the selection of the columns provider,
  providerName, region, impact and countryName; \<open>impact\<close> is in g CO2/kWh. The data
  frame is the list of its rows.
\<close>

record cloud_row =
  provider :: string
  providerName :: string
  region_col :: string
  impact :: real
  countryName :: string

record cloud_emissions_row = cloud_row +
  emissions_col :: real

text \<open>
  The assignment of the column \<open>emissions\<close>: the lambda applied to every row
  (\<open>axis=1\<close>).
\<close>

definition add_emissions_column :: "real \<Rightarrow> cloud_row list \<Rightarrow> cloud_emissions_row list" where
  "add_emissions_column net_energy_consumed cloud_emissions =
     map (\<lambda>row. \<lparr>provider = provider row, providerName = providerName row,
                  region_col = region_col row, impact = impact row,
                  countryName = countryName row,
                  emissions_col = kgs_per_kwh_from_g_per_kwh (impact row) * net_energy_consumed\<rparr>)
         cloud_emissions"

text \<open>
  \<open>get_cloud_emissions_barchart_data\<close>, with the table that
  \<open>get_cloud_emissions_data()\<close> returns as the argument \<open>tbl\<close>. \<open>sort_values\<close> is
  a sort by the key (the order of rows with equal keys is left to pandas and is not part of
  any statement below); \<open>iloc[0, :]\<close> on an empty frame raises IndexError.
\<close>

definition get_cloud_emissions_barchart_data ::
  "cloud_row list \<Rightarrow> real \<Rightarrow> string \<Rightarrow> string \<Rightarrow> string \<Rightarrow>
   error + (string \<times> cloud_emissions_row list)" where
  "get_cloud_emissions_barchart_data tbl net_energy_consumed on_cloud' cloud_provider'
       cloud_region' =
     (if on_cloud' = ''N'' then Inr ([], [])
      else
        (let cloud_emissions = add_emissions_column net_energy_consumed tbl;
             cloud_emissions_project_region =
               filter (\<lambda>r. region_col r = cloud_region') cloud_emissions;
             cloud_emissions' =
               sort_key emissions_col
                 (filter (\<lambda>r. provider r = cloud_provider' \<and> region_col r \<noteq> cloud_region')
                    cloud_emissions)
         in case cloud_emissions_project_region of
              [] \<Rightarrow> Inl IndexError
            | r # rest \<Rightarrow>
                Inr (providerName r, cloud_emissions_project_region @ cloud_emissions')))"

section \<open>Example inputs\<close>

text \<open>Concrete environments, worlds and trackers on which the theorems below are run.\<close>

definition example_factors :: "(string \<times> real) list" where
  "example_factors = [(''CAN'', 1 / 5), (''FRA'', 1 / 20), (''USA'', 1 / 2)]"

definition example_env :: env where
  "example_env =
     \<lparr>is_gpu_details_available = True,
      get_private_infra_emissions =
        (\<lambda>e g. case GeoMetadata_country_iso_code g of
                  None \<Rightarrow> Inl NoEmissionFactorFound
                | Some c \<Rightarrow>
                    (case map_of example_factors c of
                       None \<Rightarrow> Inl NoEmissionFactorFound
                     | Some f \<Rightarrow> Inr (f * kwh e))),
      get_cloud_emissions =
        (\<lambda>e c. if CloudMetadata_provider c = Some ''aws''
                then Inr (2 / 5 * kwh e) else Inl NoEmissionFactorFound),
      get_cloud_country_name = (\<lambda>c. Inr ''United States''),
      get_cloud_country_iso_code = (\<lambda>c. Inr ''USA''),
      get_cloud_geo_region = (\<lambda>c. Inr ''virginia''),
      GeoMetadata_from_geo_js =
        Inr \<lparr>GeoMetadata_country_iso_code = Some ''FRA'',
             GeoMetadata_country_name = Some ''France'',
             GeoMetadata_region = None\<rparr>,
      CloudMetadata_from_co2_tracker_utils =
        Inr \<lparr>CloudMetadata_provider = Some ''aws'',
             CloudMetadata_region = Some ''us-east-1''\<rparr>,
      strftime = (\<lambda>c. ''2020-01-01T00:00:00''),
      uuid4 = (\<lambda>n. ''uuid''),
      out_raises =
        (\<lambda>p. if p = FileOutput ''/missing/emissions.csv'' then Some IOError else None)\<rparr>"

definition example_env_no_gpu :: env where
  "example_env_no_gpu = example_env\<lparr>is_gpu_details_available := False\<rparr>"

definition example_world :: world where
  "example_world = \<lparr>clock = 1000, uuid_calls = 0, events = []\<rparr>"

definition example_world_later :: world where
  "example_world_later = \<lparr>clock = 1005, uuid_calls = 0, events = [Scheduler_start]\<rparr>"

definition example_running :: tracker where
  "example_running =
     \<lparr>self_class = CO2Tracker,
      self_project_name = ''default'',
      self_measure_power_secs = 1,
      self_start_time = Some 1000,
      self_output_dir = ''.'',
      self_total_energy = \<lparr>kwh = 0\<rparr>,
      self_scheduler = \<lparr>jobs = [1], state = STATE_RUNNING\<rparr>,
      self_is_gpu_available = True,
      persistence_objs = [FileOutput ''./emissions.csv'']\<rparr>"

definition example_idle_no_gpu :: tracker where
  "example_idle_no_gpu =
     example_running\<lparr>self_measure_power_secs := 15,
                     self_start_time := None,
                     self_scheduler := \<lparr>jobs = [15], state = STATE_STOPPED\<rparr>,
                     self_is_gpu_available := False\<rparr>"

definition example_idle :: tracker where
  "example_idle =
     example_running\<lparr>self_start_time := None,
                     self_scheduler := \<lparr>jobs = [1], state = STATE_STOPPED\<rparr>\<rparr>"

definition example_offline_running :: tracker where
  "example_offline_running =
     example_running\<lparr>self_class := OfflineCO2Tracker ''FRA'' ''France'' None,
                     self_total_energy := \<lparr>kwh = 10\<rparr>\<rparr>"

definition example_two_sinks_running :: tracker where
  "example_two_sinks_running =
     example_offline_running\<lparr>persistence_objs :=
       [FileOutput ''/missing/emissions.csv'', FileOutput ''./emissions.csv'']\<rparr>"

definition example_record :: CO2Data where
  "example_record =
     \<lparr>timestamp = ''2020-01-01T00:00:00'', experiment_id = ''uuid'',
      project_name = ''default'', duration = 5, emissions = 1 / 2, energy_consumed = 10,
      country_name = Some ''France'', country_iso_code = Some ''FRA'', region = None,
      on_cloud = ''N'', cloud_provider = Some [], cloud_region = Some []\<rparr>"

definition example_cloud_record :: CO2Data where
  "example_cloud_record =
     \<lparr>timestamp = ''2020-01-01T00:00:00'', experiment_id = ''uuid'',
      project_name = ''default'', duration = 5, emissions = 4, energy_consumed = 10,
      country_name = Some ''United States'', country_iso_code = Some ''USA'',
      region = Some ''virginia'',
      on_cloud = ''Y'', cloud_provider = Some ''aws'', cloud_region = Some ''us-east-1''\<rparr>"

definition example_cloud_running :: tracker where
  "example_cloud_running = example_running\<lparr>self_total_energy := \<lparr>kwh = 10\<rparr>\<rparr>"

definition example_stopped_scheduler :: scheduler where
  "example_stopped_scheduler = \<lparr>jobs = [1], state = STATE_STOPPED\<rparr>"

definition example_canada_record :: CO2Data where
  "example_canada_record =
     \<lparr>timestamp = ''2020-01-01T00:00:00'', experiment_id = ''uuid'',
      project_name = ''default'', duration = 5, emissions = 1 / 12000,
      energy_consumed = 1 / 2400,
      country_name = Some ''Canada'', country_iso_code = Some ''CAN'', region = None,
      on_cloud = ''N'', cloud_provider = Some [], cloud_region = Some []\<rparr>"

definition example_france_record :: CO2Data where
  "example_france_record =
     \<lparr>timestamp = ''2020-01-01T00:00:00'', experiment_id = ''uuid'',
      project_name = ''default'', duration = 5, emissions = 1 / 48000,
      energy_consumed = 1 / 2400,
      country_name = Some ''France'', country_iso_code = Some ''FRA'', region = None,
      on_cloud = ''N'', cloud_provider = Some [], cloud_region = Some []\<rparr>"

definition example_fn :: "nat \<Rightarrow> world \<Rightarrow> (error + nat) \<times> world" where
  "example_fn a w = (Inr (a + 1), w\<lparr>clock := clock w + 5\<rparr>)"

definition example_table :: "cloud_row list" where
  "example_table =
     [\<lparr>provider = ''aws'', providerName = ''Amazon Web Services'',
       region_col = ''us-east-1'', impact = 400, countryName = ''United States''\<rparr>,
      \<lparr>provider = ''aws'', providerName = ''Amazon Web Services'',
       region_col = ''eu-west-3'', impact = 50, countryName = ''France''\<rparr>,
      \<lparr>provider = ''gcp'', providerName = ''Google Cloud Platform'',
       region_col = ''europe-west1'', impact = 200, countryName = ''Belgium''\<rparr>,
      \<lparr>provider = ''aws'', providerName = ''Amazon Web Services'',
       region_col = ''ca-central-1'', impact = 20, countryName = ''Canada''\<rparr>]"

section \<open>The sampling task accumulates energy\<close>

lemmas example_defs =
  example_env_def example_factors_def example_world_def example_world_later_def
  example_running_def example_offline_running_def example_two_sinks_running_def
  example_cloud_running_def example_record_def example_cloud_record_def
  example_stopped_scheduler_def


lemma example_running_reached:
  "CO2Tracker_init example_env ''default'' 1 ''.'' True = Inr t0 \<Longrightarrow>
   start t0 example_world = (Inr (), example_running, emit Scheduler_start example_world)"
  by (auto simp add: CO2Tracker_init_def BaseCO2Tracker_init_def Energy_from_energy_def
      example_env_def start_def example_world_def scheduler_start_def add_job_def
      BackgroundScheduler_def example_running_def path_join_def Let_def)

lemma Energy_from_power_and_time_nonneg:
  assumes "0 \<le> W P" and "0 \<le> s"
  shows "Energy_from_power_and_time P \<lparr>seconds = s\<rparr> = Inr \<lparr>kwh = W P * s / 3600000\<rparr>"
proof -
  have "0 \<le> W P * s" using assms by simp
  then have "\<not> W P * s < 0" by simp
  then show ?thesis
    by (simp add: Energy_from_power_and_time_def Energy_from_energy_def)
qed

lemma measure_power_nonneg:
  assumes "0 \<le> W P" and "0 \<le> self_measure_power_secs t"
  shows "measure_power P t =
     Inr (t\<lparr>self_total_energy :=
            Energy_add (self_total_energy t)
              \<lparr>kwh = W P * real_of_int (self_measure_power_secs t) / 3600000\<rparr>\<rparr>)"
proof -
  have e: "Energy_from_power_and_time P \<lparr>seconds = real_of_int (self_measure_power_secs t)\<rparr>
      = Inr \<lparr>kwh = W P * real_of_int (self_measure_power_secs t) / 3600000\<rparr>"
    using assms by (simp add: Energy_from_power_and_time_nonneg)
  show ?thesis
    using assms(2) by (simp add: measure_power_def Time_from_seconds_def e not_less)
qed

lemma fire_running:
  assumes "0 \<le> W P" and "0 \<le> self_measure_power_secs t"
    and "state (self_scheduler t) = STATE_RUNNING"
  shows "fire P t =
     t\<lparr>self_total_energy :=
            Energy_add (self_total_energy t)
              \<lparr>kwh = W P * real_of_int (self_measure_power_secs t) / 3600000\<rparr>\<rparr>"
  using assms by (simp add: fire_def measure_power_nonneg)

lemma firings_replicate_kwh:
  assumes "0 \<le> W P" and "0 \<le> self_measure_power_secs t"
    and "state (self_scheduler t) = STATE_RUNNING"
  shows "kwh (self_total_energy (firings (replicate n P) t)) =
         kwh (self_total_energy t)
           + real n * W P * real_of_int (self_measure_power_secs t) / 3600000"
  using assms
proof (induction n arbitrary: t)
  case 0
  then show ?case by simp
next
  case (Suc n)
  let ?t1 = "fire P t"
  have f: "?t1 = t\<lparr>self_total_energy :=
            Energy_add (self_total_energy t)
              \<lparr>kwh = W P * real_of_int (self_measure_power_secs t) / 3600000\<rparr>\<rparr>"
    using Suc.prems by (rule fire_running)
  have a: "0 \<le> self_measure_power_secs ?t1" "state (self_scheduler ?t1) = STATE_RUNNING"
    using Suc.prems by (simp_all add: f)
  from Suc.IH[OF Suc.prems(1) a]
  show ?case by (simp add: f Energy_add_def algebra_simps)
qed

text \<open>
  Claim C1. With a non-negative power reading and a non-negative sampling interval
  \<open>measure_power_secs\<close>, each firing of the sampling task adds exactly
  \<open>Energy.from_power_and_time(total_power, measure_power_secs)\<close> to the accumulated
  energy; from zero, \<open>n\<close> firings at the constant power \<open>P\<close> accumulate
  \<open>n * P * measure_power_secs / 3600000\<close> kWh.
\<close>

theorem measure_power_accumulates:
  assumes "0 \<le> W P" and "0 \<le> self_measure_power_secs t"
    and "state (self_scheduler t) = STATE_RUNNING"
  shows "(\<exists>e. Energy_from_power_and_time P
                \<lparr>seconds = real_of_int (self_measure_power_secs t)\<rparr> = Inr e
            \<and> measure_power P t =
                Inr (t\<lparr>self_total_energy := Energy_add (self_total_energy t) e\<rparr>)
            \<and> fire P t = t\<lparr>self_total_energy := Energy_add (self_total_energy t) e\<rparr>
            \<and> kwh (self_total_energy (fire P t)) = kwh (self_total_energy t) + kwh e)
       \<and> (kwh (self_total_energy t) = 0 \<longrightarrow>
            kwh (self_total_energy (firings (replicate n P) t)) =
              real n * W P * real_of_int (self_measure_power_secs t) / 3600000)"
proof -
  let ?e = "\<lparr>kwh = W P * real_of_int (self_measure_power_secs t) / 3600000\<rparr>"
  have "Energy_from_power_and_time P \<lparr>seconds = real_of_int (self_measure_power_secs t)\<rparr>
          = Inr ?e"
    using assms by (simp add: Energy_from_power_and_time_nonneg)
  moreover have "measure_power P t =
      Inr (t\<lparr>self_total_energy := Energy_add (self_total_energy t) ?e\<rparr>)"
    using assms by (simp add: measure_power_nonneg)
  moreover have "fire P t = t\<lparr>self_total_energy := Energy_add (self_total_energy t) ?e\<rparr>"
    using assms by (simp add: fire_running)
  moreover have "kwh (self_total_energy (fire P t)) = kwh (self_total_energy t) + kwh ?e"
    using assms by (simp add: fire_running Energy_add_def)
  moreover have "kwh (self_total_energy t) = 0 \<longrightarrow>
      kwh (self_total_energy (firings (replicate n P) t)) =
        real n * W P * real_of_int (self_measure_power_secs t) / 3600000"
    using assms by (simp add: firings_replicate_kwh)
  ultimately show ?thesis by blast
qed

theorem measure_power_accumulates_witness:
  "0 \<le> W \<lparr>W = 100\<rparr> \<and> 0 \<le> self_measure_power_secs example_running
   \<and> state (self_scheduler example_running) = STATE_RUNNING
   \<and> kwh (self_total_energy example_running) = 0
   \<and> kwh (self_total_energy (firings (replicate 5 \<lparr>W = 100\<rparr>) example_running))
       = 5 * 100 * 1 / 3600000"
  using measure_power_accumulates [of "\<lparr>W = 100\<rparr>" example_running 5]
  by (simp add: example_running_def)

section \<open>The lifecycle: start and stop\<close>

lemma BaseCO2Tracker_init_Inr:
  "BaseCO2Tracker_init en cls pn secs od save =
     Inr \<lparr>self_class = cls, self_project_name = pn, self_measure_power_secs = secs,
          self_start_time = None, self_output_dir = od, self_total_energy = \<lparr>kwh = 0\<rparr>,
          self_scheduler = \<lparr>jobs = [secs], state = STATE_STOPPED\<rparr>,
          self_is_gpu_available = is_gpu_details_available en,
          persistence_objs =
            (if save then [FileOutput (path_join od ''emissions.csv'')] else [])\<rparr>"
  by (simp add: BaseCO2Tracker_init_def Energy_from_energy_def add_job_def
      BackgroundScheduler_def)

lemma stop_not_started:
  "self_start_time t = None \<Longrightarrow>
   stop en t w = (Inr None, t, emit (Log ERROR ''Need to first start the tracker'') w)"
  by (simp add: stop_def)

lemma sink_outs_append: "sink_outs (xs @ ys) = sink_outs xs @ sink_outs ys"
  by (induction xs rule: sink_outs.induct) simp_all

lemma records_created_append:
  "records_created (xs @ ys) = records_created xs @ records_created ys"
  by (induction xs rule: records_created.induct) simp_all

text \<open>
  On a tracker that is idle (no start timestamp, scheduler stopped), as every constructed
  tracker is, \<open>start()\<close> does not raise: a tracker without start timestamp is one on
  which \<open>start()\<close> has not yet run successfully.
\<close>

lemma start_idle_returns:
  assumes "self_start_time t = None" and "state (self_scheduler t) = STATE_STOPPED"
  shows "fst (start t w) = Inr ()"
  using assms by (simp add: start_def scheduler_start_def Let_def)

text \<open>
  Claim C5. On a tracker whose start timestamp was never set (\<open>start()\<close> has never
  run successfully), \<open>stop()\<close> returns the absent result \<open>None\<close>, does not raise,
  leaves the tracker as it was and hands nothing to any sink: it only logs an error.
\<close>

theorem stop_before_start:
  assumes "self_start_time t = None"
  shows "stop en t w = (Inr None, t, emit (Log ERROR ''Need to first start the tracker'') w)
       \<and> sink_outs (events (snd (snd (stop en t w)))) = sink_outs (events w)"
  using assms by (simp add: stop_not_started emit_def sink_outs_append)

theorem stop_before_start_witness:
  "self_start_time example_idle = None
   \<and> fst (stop example_env example_idle example_world) = Inr None
   \<and> sink_outs (events (snd (snd (stop example_env example_idle example_world)))) = []"
  using stop_before_start [of example_idle example_env example_world]
  by (simp add: example_world_def emit_def example_idle_def)

text \<open>
  Claim C6. When no power-metering capability was detected at construction,
  \<open>start()\<close> logs a warning and leaves the tracker idle: the tracker is unchanged, no
  start timestamp is set and the scheduler is not started; a \<open>stop()\<close> called
  afterwards returns the absent result instead of raising.
\<close>

theorem start_without_gpu:
  assumes "BaseCO2Tracker_init en cls pn secs od save = Inr t"
    and "\<not> is_gpu_details_available en"
  shows "start t w = (Inr (), t, emit (Log WARNING ''No GPU available'') w)
       \<and> self_start_time t = None
       \<and> state (self_scheduler t) = STATE_STOPPED
       \<and> stop en t w' = (Inr None, t, emit (Log ERROR ''Need to first start the tracker'') w')"
proof -
  from assms(1) have t: "t = \<lparr>self_class = cls, self_project_name = pn,
          self_measure_power_secs = secs,
          self_start_time = None, self_output_dir = od, self_total_energy = \<lparr>kwh = 0\<rparr>,
          self_scheduler = \<lparr>jobs = [secs], state = STATE_STOPPED\<rparr>,
          self_is_gpu_available = is_gpu_details_available en,
          persistence_objs =
            (if save then [FileOutput (path_join od ''emissions.csv'')] else [])\<rparr>"
    by (simp add: BaseCO2Tracker_init_Inr)
  have g: "\<not> self_is_gpu_available t" using assms(2) by (simp add: t)
  have n: "self_start_time t = None" by (simp add: t)
  have s: "state (self_scheduler t) = STATE_STOPPED" by (simp add: t)
  have "start t w = (Inr (), t, emit (Log WARNING ''No GPU available'') w)"
    using g by (simp add: start_def)
  moreover have "stop en t w' =
      (Inr None, t, emit (Log ERROR ''Need to first start the tracker'') w')"
    using n by (rule stop_not_started)
  ultimately show ?thesis using n s by simp
qed

theorem start_without_gpu_witness:
  "BaseCO2Tracker_init example_env_no_gpu CO2Tracker ''default'' 15 ''.'' True
       = Inr example_idle_no_gpu
   \<and> \<not> is_gpu_details_available example_env_no_gpu
   \<and> start example_idle_no_gpu example_world
       = (Inr (), example_idle_no_gpu, emit (Log WARNING ''No GPU available'') example_world)
   \<and> self_start_time example_idle_no_gpu = None
   \<and> state (self_scheduler example_idle_no_gpu) = STATE_STOPPED
   \<and> fst (stop example_env_no_gpu example_idle_no_gpu example_world_later) = Inr None"
proof -
  have t: "BaseCO2Tracker_init example_env_no_gpu CO2Tracker ''default'' 15 ''.'' True
      = Inr example_idle_no_gpu"
    by (simp add: BaseCO2Tracker_init_Inr example_idle_no_gpu_def example_running_def
        example_env_no_gpu_def example_env_def path_join_def)
  have g: "\<not> is_gpu_details_available example_env_no_gpu"
    by (simp add: example_env_no_gpu_def)
  from start_without_gpu [OF t g, of example_world example_world_later] t g
  show ?thesis by simp
qed

lemma start_fresh:
  assumes "self_is_gpu_available t" and "self_start_time t = None"
    and "state (self_scheduler t) = STATE_STOPPED"
  shows "start t w =
     (Inr (), t\<lparr>self_start_time := Some (clock w),
                self_scheduler := (self_scheduler t)\<lparr>state := STATE_RUNNING\<rparr>\<rparr>,
      emit Scheduler_start w)"
  using assms by (simp add: start_def scheduler_start_def Let_def)

text \<open>
  Claim C7. A \<open>start()\<close> on a tracker whose start timestamp is already set emits a
  warning and changes no state: the tracker (start timestamp, accumulated energy, scheduler)
  is returned as it was. A tracker that was constructed and then started has exactly the one
  sampling job it was constructed with, so one sampler stays active.
\<close>

theorem start_twice:
  assumes "self_start_time t \<noteq> None"
  shows "start t w =
           (Inr (), t,
            emit (Log WARNING (if self_is_gpu_available t then ''Already started tracking''
                               else ''No GPU available'')) w)
       \<and> (\<forall>en cls pn secs od save t0 w0 w1.
             BaseCO2Tracker_init en cls pn secs od save = Inr t0
             \<and> start t0 w0 = (Inr (), t, w1)
           \<longrightarrow> jobs (self_scheduler t) = [secs] \<and> state (self_scheduler t) = STATE_RUNNING
               \<and> self_start_time t = Some (clock w0))"
proof -
  have a: "start t w =
           (Inr (), t,
            emit (Log WARNING (if self_is_gpu_available t then ''Already started tracking''
                               else ''No GPU available'')) w)"
    using assms by (simp add: start_def)
  have b: "jobs (self_scheduler t) = [secs] \<and> state (self_scheduler t) = STATE_RUNNING
               \<and> self_start_time t = Some (clock w0)"
    if i: "BaseCO2Tracker_init en cls pn secs od save = Inr t0"
      and s: "start t0 w0 = (Inr (), t, w1)" for en cls pn secs od save t0 w0 w1
  proof -
    from i have t0: "t0 = \<lparr>self_class = cls, self_project_name = pn,
          self_measure_power_secs = secs,
          self_start_time = None, self_output_dir = od, self_total_energy = \<lparr>kwh = 0\<rparr>,
          self_scheduler = \<lparr>jobs = [secs], state = STATE_STOPPED\<rparr>,
          self_is_gpu_available = is_gpu_details_available en,
          persistence_objs =
            (if save then [FileOutput (path_join od ''emissions.csv'')] else [])\<rparr>"
      by (simp add: BaseCO2Tracker_init_Inr)
    show ?thesis
    proof (cases "self_is_gpu_available t0")
      case False
      then have "start t0 w0 = (Inr (), t0, emit (Log WARNING ''No GPU available'') w0)"
        by (simp add: start_def)
      with s have "t = t0" by simp
      with assms show ?thesis by (simp add: t0)
    next
      case True
      have "start t0 w0 =
         (Inr (), t0\<lparr>self_start_time := Some (clock w0),
                self_scheduler := (self_scheduler t0)\<lparr>state := STATE_RUNNING\<rparr>\<rparr>,
          emit Scheduler_start w0)"
        using True by (intro start_fresh) (simp_all add: t0)
      with s have "t = t0\<lparr>self_start_time := Some (clock w0),
                self_scheduler := (self_scheduler t0)\<lparr>state := STATE_RUNNING\<rparr>\<rparr>"
        by simp
      then show ?thesis by (simp add: t0)
    qed
  qed
  from a b show ?thesis by blast
qed

theorem start_twice_witness:
  "self_start_time example_running \<noteq> None
   \<and> start example_running example_world_later =
       (Inr (), example_running,
        emit (Log WARNING ''Already started tracking'') example_world_later)
   \<and> BaseCO2Tracker_init example_env CO2Tracker ''default'' 1 ''.'' True = Inr example_idle
   \<and> start example_idle example_world
          = (Inr (), example_running, emit Scheduler_start example_world)
   \<and> jobs (self_scheduler example_running) = [1]"
  using start_twice [of example_running example_world_later]
  by (simp add: example_running_def example_idle_def BaseCO2Tracker_init_Inr example_env_def
      path_join_def start_def scheduler_start_def example_world_def)

section \<open>What stop reports\<close>

lemma get_cloud_metadata_scheduler [simp]:
  "get_cloud_metadata en (t\<lparr>self_scheduler := s\<rparr>) = get_cloud_metadata en t"
  by (simp add: get_cloud_metadata_def)

lemma get_geo_metadata_scheduler [simp]:
  "get_geo_metadata en (t\<lparr>self_scheduler := s\<rparr>) = get_geo_metadata en t"
  by (simp add: get_geo_metadata_def)

lemma assemble_scheduler [simp]:
  "assemble en (t\<lparr>self_scheduler := s\<rparr>) cloud geo dur ts eid = assemble en t cloud geo dur ts eid"
  by (simp add: assemble_def split: sum.splits)

lemma persist_Inr:
  "persist en ps d w = (Inr u, w') \<Longrightarrow>
   w' = w\<lparr>events := events w @ map (\<lambda>p. Sink_out p d) ps\<rparr>"
proof (induction ps arbitrary: w)
  case Nil
  then show ?case by simp
next
  case (Cons p ps)
  from Cons.prems obtain n: "out_raises en p = None"
    and r: "persist en ps d (emit (Sink_out p d) w) = (Inr u, w')"
    by (auto simp add: BaseOutput_out_def split: option.splits)
  from Cons.IH [OF r] show ?case by (simp add: emit_def)
qed

lemma persist_ok:
  "\<forall>p\<in>set ps. out_raises en p = None \<Longrightarrow>
   persist en ps d w = (Inr (), w\<lparr>events := events w @ map (\<lambda>p. Sink_out p d) ps\<rparr>)"
proof (induction ps arbitrary: w)
  case Nil
  then show ?case by simp
next
  case (Cons p ps)
  then show ?case
    by (simp add: BaseOutput_out_def emit_def)
qed

lemma stop_success:
  assumes "self_start_time t = Some t0"
    and "state (self_scheduler t) = STATE_RUNNING"
    and "get_cloud_metadata en t = Inr cloud"
    and "get_geo_metadata en t = Inr geo"
    and "t0 \<le> clock w"
    and "assemble en t cloud geo \<lparr>seconds = clock w - t0\<rparr>
           (strftime en (clock w)) (uuid4 en (uuid_calls w)) = Inr data"
    and "\<forall>p\<in>set (persistence_objs t). out_raises en p = None"
  shows "stop en t w =
     (Inr (Some (emissions data)),
      t\<lparr>self_scheduler := (self_scheduler t)\<lparr>state := STATE_STOPPED\<rparr>\<rparr>,
      w\<lparr>uuid_calls := Suc (uuid_calls w),
        events := events w @
          [Scheduler_shutdown, Compute_emissions (self_total_energy t), CO2Data_created data]
          @ map (\<lambda>p. Sink_out p data) (persistence_objs t)\<rparr>)"
  using assms
  by (simp add: stop_def scheduler_shutdown_def Time_from_seconds_def emit_def Let_def
      persist_ok not_less)

lemma stop_Inr:
  assumes "self_start_time t = Some t0"
    and "stop en t w = (Inr r, t', w')"
  shows "\<exists>cloud geo data.
           get_cloud_metadata en t = Inr cloud \<and> get_geo_metadata en t = Inr geo
         \<and> assemble en t cloud geo \<lparr>seconds = clock w - t0\<rparr>
               (strftime en (clock w)) (uuid4 en (uuid_calls w)) = Inr data
         \<and> r = Some (emissions data)
         \<and> t' = t\<lparr>self_scheduler := (self_scheduler t)\<lparr>state := STATE_STOPPED\<rparr>\<rparr>
         \<and> events w' = events w @
              [Scheduler_shutdown, Compute_emissions (self_total_energy t), CO2Data_created data]
              @ map (\<lambda>p. Sink_out p data) (persistence_objs t)"
  using assms
  by (auto simp add: stop_def scheduler_shutdown_def Time_from_seconds_def emit_def Let_def
      split: sum.splits if_splits prod.splits dest!: persist_Inr)

lemma assemble_private:
  assumes "assemble en t cloud geo dur ts eid = Inr data" and "is_on_private_infra cloud"
  shows "get_private_infra_emissions en (self_total_energy t) geo = Inr (emissions data)
       \<and> country_name data = GeoMetadata_country_name geo
       \<and> country_iso_code data = GeoMetadata_country_iso_code geo
       \<and> region data = GeoMetadata_region geo
       \<and> on_cloud data = ''N'' \<and> cloud_provider data = Some [] \<and> cloud_region data = Some []"
  using assms by (auto simp add: assemble_def split: sum.splits)

lemma assemble_cloud:
  assumes "assemble en t cloud geo dur ts eid = Inr data" and "\<not> is_on_private_infra cloud"
  shows "get_cloud_emissions en (self_total_energy t) cloud = Inr (emissions data)
       \<and> (\<exists>cn code rg.
            get_cloud_country_name en cloud = Inr cn \<and> country_name data = Some cn
          \<and> get_cloud_country_iso_code en cloud = Inr code \<and> country_iso_code data = Some code
          \<and> get_cloud_geo_region en cloud = Inr rg \<and> region data = Some rg)
       \<and> on_cloud data = ''Y''
       \<and> cloud_provider data = CloudMetadata_provider cloud
       \<and> cloud_region data = CloudMetadata_region cloud"
  using assms by (auto simp add: assemble_def split: sum.splits)

lemma stop_example_offline:
  "stop example_env example_offline_running example_world_later =
     (Inr (Some (1 / 2)),
      example_offline_running\<lparr>self_scheduler := example_stopped_scheduler\<rparr>,
      \<lparr>clock = 1005, uuid_calls = 1,
       events = [Scheduler_start, Scheduler_shutdown, Compute_emissions \<lparr>kwh = 10\<rparr>,
                 CO2Data_created example_record,
                 Sink_out (FileOutput ''./emissions.csv'') example_record]\<rparr>)"
  by (simp add: stop_def scheduler_shutdown_def get_cloud_metadata_def get_geo_metadata_def
      Time_from_seconds_def assemble_def is_on_private_infra_def emit_def
      BaseOutput_out_def Let_def example_defs)

lemma stop_example_cloud:
  "stop example_env example_cloud_running example_world_later =
     (Inr (Some 4),
      example_cloud_running\<lparr>self_scheduler := example_stopped_scheduler\<rparr>,
      \<lparr>clock = 1005, uuid_calls = 1,
       events = [Scheduler_start, Scheduler_shutdown, Compute_emissions \<lparr>kwh = 10\<rparr>,
                 CO2Data_created example_cloud_record,
                 Sink_out (FileOutput ''./emissions.csv'') example_cloud_record]\<rparr>)"
  by (simp add: stop_def scheduler_shutdown_def get_cloud_metadata_def get_geo_metadata_def
      Time_from_seconds_def assemble_def is_on_private_infra_def emit_def
      BaseOutput_out_def Let_def example_defs)

text \<open>
  Claim C2. When \<open>stop()\<close> returns on a started tracker, the value it returns is the
  emissions of the one record it constructed and handed to every sink. If the resolved cloud
  metadata is on private infrastructure, these emissions are what
  \<open>get_private_infra_emissions\<close> gives for the accumulated energy and the resolved geo
  metadata, the country and region fields are those of the geo metadata, \<open>on_cloud\<close> is
  "N" and \<open>cloud_provider\<close>, \<open>cloud_region\<close> are empty strings. Otherwise the
  emissions are what \<open>get_cloud_emissions\<close> gives, the country and region fields are
  the results of \<open>get_cloud_country_name\<close>, \<open>get_cloud_country_iso_code\<close> and
  \<open>get_cloud_geo_region\<close>, \<open>on_cloud\<close> is "Y" and \<open>cloud_provider\<close>,
  \<open>cloud_region\<close> are those of the cloud metadata.
\<close>

theorem stop_selects_calculator:
  assumes "self_start_time t = Some t0"
    and "stop en t w = (Inr r, t', w')"
    and "get_cloud_metadata en t = Inr cloud"
    and "get_geo_metadata en t = Inr geo"
  shows "\<exists>data. r = Some (emissions data)
       \<and> records_created (events w') = records_created (events w) @ [data]
       \<and> sink_outs (events w') =
           sink_outs (events w) @ map (\<lambda>p. (p, data)) (persistence_objs t)
       \<and> (if is_on_private_infra cloud then
            get_private_infra_emissions en (self_total_energy t) geo = Inr (emissions data)
          \<and> country_name data = GeoMetadata_country_name geo
          \<and> country_iso_code data = GeoMetadata_country_iso_code geo
          \<and> region data = GeoMetadata_region geo
          \<and> on_cloud data = ''N'' \<and> cloud_provider data = Some [] \<and> cloud_region data = Some []
          else
            get_cloud_emissions en (self_total_energy t) cloud = Inr (emissions data)
          \<and> (\<exists>cn code rg.
               get_cloud_country_name en cloud = Inr cn \<and> country_name data = Some cn
             \<and> get_cloud_country_iso_code en cloud = Inr code
             \<and> country_iso_code data = Some code
             \<and> get_cloud_geo_region en cloud = Inr rg \<and> region data = Some rg)
          \<and> on_cloud data = ''Y''
          \<and> cloud_provider data = CloudMetadata_provider cloud
          \<and> cloud_region data = CloudMetadata_region cloud)"
proof -
  from stop_Inr [OF assms(1,2)] assms(3,4)
  obtain data where a: "assemble en t cloud geo \<lparr>seconds = clock w - t0\<rparr>
               (strftime en (clock w)) (uuid4 en (uuid_calls w)) = Inr data"
    and r: "r = Some (emissions data)"
    and e: "events w' = events w @
              [Scheduler_shutdown, Compute_emissions (self_total_energy t), CO2Data_created data]
              @ map (\<lambda>p. Sink_out p data) (persistence_objs t)"
    by auto
  have rc: "records_created (map (\<lambda>p. Sink_out p data) ps) = []" for ps
    by (induction ps) simp_all
  have so: "sink_outs (map (\<lambda>p. Sink_out p data) ps) = map (\<lambda>p. (p, data)) ps" for ps
    by (induction ps) simp_all
  have 1: "records_created (events w') = records_created (events w) @ [data]"
    by (simp add: e records_created_append rc)
  have 2: "sink_outs (events w') =
           sink_outs (events w) @ map (\<lambda>p. (p, data)) (persistence_objs t)"
    by (simp add: e sink_outs_append so)
  show ?thesis
  proof (cases "is_on_private_infra cloud")
    case True
    with assemble_private [OF a True] r 1 2 show ?thesis by auto
  next
    case False
    with assemble_cloud [OF a False] r 1 2 show ?thesis by auto
  qed
qed

theorem stop_selects_calculator_witness:
  "self_start_time example_offline_running = Some 1000
   \<and> stop example_env example_offline_running example_world_later =
       (Inr (Some (1 / 2)),
        example_offline_running\<lparr>self_scheduler := example_stopped_scheduler\<rparr>,
        \<lparr>clock = 1005, uuid_calls = 1,
         events = [Scheduler_start, Scheduler_shutdown, Compute_emissions \<lparr>kwh = 10\<rparr>,
                   CO2Data_created example_record,
                   Sink_out (FileOutput ''./emissions.csv'') example_record]\<rparr>)
   \<and> get_cloud_metadata example_env example_offline_running =
       Inr \<lparr>CloudMetadata_provider = None, CloudMetadata_region = None\<rparr>
   \<and> get_geo_metadata example_env example_offline_running =
       Inr \<lparr>GeoMetadata_country_iso_code = Some ''FRA'',
            GeoMetadata_country_name = Some ''France'', GeoMetadata_region = None\<rparr>
   \<and> is_on_private_infra \<lparr>CloudMetadata_provider = None, CloudMetadata_region = None\<rparr>
   \<and> get_private_infra_emissions example_env \<lparr>kwh = 10\<rparr>
         \<lparr>GeoMetadata_country_iso_code = Some ''FRA'',
          GeoMetadata_country_name = Some ''France'', GeoMetadata_region = None\<rparr> = Inr (1 / 2)
   \<and> on_cloud example_record = ''N''
   \<and> self_start_time example_cloud_running = Some 1000
   \<and> stop example_env example_cloud_running example_world_later =
       (Inr (Some 4),
        example_cloud_running\<lparr>self_scheduler := example_stopped_scheduler\<rparr>,
        \<lparr>clock = 1005, uuid_calls = 1,
         events = [Scheduler_start, Scheduler_shutdown, Compute_emissions \<lparr>kwh = 10\<rparr>,
                   CO2Data_created example_cloud_record,
                   Sink_out (FileOutput ''./emissions.csv'') example_cloud_record]\<rparr>)
   \<and> get_cloud_metadata example_env example_cloud_running =
       Inr \<lparr>CloudMetadata_provider = Some ''aws'', CloudMetadata_region = Some ''us-east-1''\<rparr>
   \<and> \<not> is_on_private_infra
          \<lparr>CloudMetadata_provider = Some ''aws'', CloudMetadata_region = Some ''us-east-1''\<rparr>
   \<and> get_cloud_emissions example_env \<lparr>kwh = 10\<rparr>
         \<lparr>CloudMetadata_provider = Some ''aws'', CloudMetadata_region = Some ''us-east-1''\<rparr>
       = Inr 4
   \<and> on_cloud example_cloud_record = ''Y''"
proof -
  have c1: "get_cloud_metadata example_env example_offline_running =
       Inr \<lparr>CloudMetadata_provider = None, CloudMetadata_region = None\<rparr>"
    by (simp add: get_cloud_metadata_def example_defs)
  have g1: "get_geo_metadata example_env example_offline_running =
       Inr \<lparr>GeoMetadata_country_iso_code = Some ''FRA'',
            GeoMetadata_country_name = Some ''France'', GeoMetadata_region = None\<rparr>"
    by (simp add: get_geo_metadata_def example_defs)
  have s1: "self_start_time example_offline_running = Some 1000"
    by (simp add: example_defs)
  have c2: "get_cloud_metadata example_env example_cloud_running =
       Inr \<lparr>CloudMetadata_provider = Some ''aws'', CloudMetadata_region = Some ''us-east-1''\<rparr>"
    by (simp add: get_cloud_metadata_def example_defs)
  have g2: "get_geo_metadata example_env example_cloud_running =
       Inr \<lparr>GeoMetadata_country_iso_code = Some ''FRA'',
            GeoMetadata_country_name = Some ''France'', GeoMetadata_region = None\<rparr>"
    by (simp add: get_geo_metadata_def example_defs)
  have s2: "self_start_time example_cloud_running = Some 1000"
    by (simp add: example_defs)
  have e1: "get_private_infra_emissions example_env \<lparr>kwh = 10\<rparr>
         \<lparr>GeoMetadata_country_iso_code = Some ''FRA'',
          GeoMetadata_country_name = Some ''France'', GeoMetadata_region = None\<rparr> = Inr (1 / 2)"
    by (simp add: example_defs)
  have e2: "get_cloud_emissions example_env \<lparr>kwh = 10\<rparr>
         \<lparr>CloudMetadata_provider = Some ''aws'', CloudMetadata_region = Some ''us-east-1''\<rparr>
       = Inr 4"
    by (simp add: example_defs)
  note w1 = stop_selects_calculator [OF s1 stop_example_offline c1 g1]
  note w2 = stop_selects_calculator [OF s2 stop_example_cloud c2 g2]
  from w1 w2 show ?thesis
    by (simp add: s1 s2 c1 c2 g1 g2 e1 e2 stop_example_offline stop_example_cloud
        is_on_private_infra_def example_record_def example_cloud_record_def)
qed

text \<open>
  Claim C3, as amended. On a running tracker (start timestamp set, scheduler running), when
  the metadata resolution, the construction of the duration, the emissions calculation and
  every sink's \<open>out\<close> return without raising, \<open>stop()\<close> shuts the scheduler down
  before it reads the accumulated energy, constructs exactly one record from that energy,
  hands it to every registered sink in order and returns the computed emissions; after the
  shutdown no firing of the sampler changes the tracker.
\<close>

theorem stop_cancels_then_reports:
  assumes "self_start_time t = Some t0"
    and "state (self_scheduler t) = STATE_RUNNING"
    and "get_cloud_metadata en t = Inr cloud"
    and "get_geo_metadata en t = Inr geo"
    and "t0 \<le> clock w"
    and "assemble en t cloud geo \<lparr>seconds = clock w - t0\<rparr>
           (strftime en (clock w)) (uuid4 en (uuid_calls w)) = Inr data"
    and "\<forall>p\<in>set (persistence_objs t). out_raises en p = None"
  shows "\<exists>t' w'. stop en t w = (Inr (Some (emissions data)), t', w')
       \<and> events w' = events w @
            [Scheduler_shutdown, Compute_emissions (self_total_energy t), CO2Data_created data]
            @ map (\<lambda>p. Sink_out p data) (persistence_objs t)
       \<and> energy_consumed data = kwh (self_total_energy t)
       \<and> state (self_scheduler t') = STATE_STOPPED
       \<and> self_total_energy t' = self_total_energy t
       \<and> (\<forall>P. fire P t' = t')"
proof -
  let ?t' = "t\<lparr>self_scheduler := (self_scheduler t)\<lparr>state := STATE_STOPPED\<rparr>\<rparr>"
  have "energy_consumed data = kwh (self_total_energy t)"
    using assms(6) by (auto simp add: assemble_def split: sum.splits if_splits)
  moreover have "\<forall>P. fire P ?t' = ?t'" by (simp add: fire_def)
  ultimately show ?thesis
    using stop_success [OF assms] by simp
qed

theorem stop_cancels_then_reports_witness:
  "self_start_time example_offline_running = Some 1000
   \<and> state (self_scheduler example_offline_running) = STATE_RUNNING
   \<and> get_cloud_metadata example_env example_offline_running =
       Inr \<lparr>CloudMetadata_provider = None, CloudMetadata_region = None\<rparr>
   \<and> get_geo_metadata example_env example_offline_running =
       Inr \<lparr>GeoMetadata_country_iso_code = Some ''FRA'',
            GeoMetadata_country_name = Some ''France'', GeoMetadata_region = None\<rparr>
   \<and> 1000 \<le> clock example_world_later
   \<and> assemble example_env example_offline_running
         \<lparr>CloudMetadata_provider = None, CloudMetadata_region = None\<rparr>
         \<lparr>GeoMetadata_country_iso_code = Some ''FRA'',
          GeoMetadata_country_name = Some ''France'', GeoMetadata_region = None\<rparr>
         \<lparr>seconds = clock example_world_later - 1000\<rparr>
         (strftime example_env (clock example_world_later))
         (uuid4 example_env (uuid_calls example_world_later)) = Inr example_record
   \<and> list_all (\<lambda>p. out_raises example_env p = None) (persistence_objs example_offline_running)
   \<and> fst (stop example_env example_offline_running example_world_later)
       = Inr (Some (emissions example_record))
   \<and> events (snd (snd (stop example_env example_offline_running example_world_later))) =
       [Scheduler_start, Scheduler_shutdown, Compute_emissions \<lparr>kwh = 10\<rparr>,
        CO2Data_created example_record,
        Sink_out (FileOutput ''./emissions.csv'') example_record]"
proof -
  have s: "self_start_time example_offline_running = Some 1000"
    and r: "state (self_scheduler example_offline_running) = STATE_RUNNING"
    and c: "get_cloud_metadata example_env example_offline_running =
       Inr \<lparr>CloudMetadata_provider = None, CloudMetadata_region = None\<rparr>"
    and g: "get_geo_metadata example_env example_offline_running =
       Inr \<lparr>GeoMetadata_country_iso_code = Some ''FRA'',
            GeoMetadata_country_name = Some ''France'', GeoMetadata_region = None\<rparr>"
    and k: "1000 \<le> clock example_world_later"
    and a: "assemble example_env example_offline_running
         \<lparr>CloudMetadata_provider = None, CloudMetadata_region = None\<rparr>
         \<lparr>GeoMetadata_country_iso_code = Some ''FRA'',
          GeoMetadata_country_name = Some ''France'', GeoMetadata_region = None\<rparr>
         \<lparr>seconds = clock example_world_later - 1000\<rparr>
         (strftime example_env (clock example_world_later))
         (uuid4 example_env (uuid_calls example_world_later)) = Inr example_record"
    and p: "\<forall>p\<in>set (persistence_objs example_offline_running).
              out_raises example_env p = None"
    by (simp_all add: get_cloud_metadata_def get_geo_metadata_def assemble_def
        is_on_private_infra_def example_defs)
  from stop_cancels_then_reports [OF s r c g k a p] s r c g k a p
  show ?thesis
    by (auto simp add: example_record_def example_world_later_def example_offline_running_def
        example_running_def)
qed

text \<open>
  Claim C3 without that proviso fails: on a running tracker with two registered sinks of
  which the first cannot be written, \<open>out\<close> raises an I/O error, \<open>stop()\<close> propagates
  it, the second sink never receives the record and no emissions are returned.
\<close>

theorem stop_failing_sink_counterexample:
  "self_start_time example_two_sinks_running = Some 1000
   \<and> state (self_scheduler example_two_sinks_running) = STATE_RUNNING
   \<and> persistence_objs example_two_sinks_running =
       [FileOutput ''/missing/emissions.csv'', FileOutput ''./emissions.csv'']
   \<and> stop example_env example_two_sinks_running example_world_later =
       (Inl IOError,
        example_two_sinks_running\<lparr>self_scheduler := example_stopped_scheduler\<rparr>,
        \<lparr>clock = 1005, uuid_calls = 1,
         events = [Scheduler_start, Scheduler_shutdown, Compute_emissions \<lparr>kwh = 10\<rparr>,
                   CO2Data_created example_record]\<rparr>)
   \<and> sink_outs [Scheduler_start, Scheduler_shutdown, Compute_emissions \<lparr>kwh = 10\<rparr>,
                 CO2Data_created example_record] = []"
  by (simp add: stop_def scheduler_shutdown_def get_cloud_metadata_def get_geo_metadata_def
      Time_from_seconds_def assemble_def is_on_private_infra_def emit_def
      BaseOutput_out_def Let_def example_defs)

section \<open>Construction of an offline tracker\<close>

lemma OfflineCO2Tracker_init_substitutes_default:
  "\<exists>t. OfflineCO2Tracker_init en c0 n0 rg pn secs od save = Inr t
       \<and> get_geo_metadata en t =
           Inr \<lparr>GeoMetadata_country_iso_code = Some (case c0 of None \<Rightarrow> ''CAN'' | Some c \<Rightarrow> c),
                GeoMetadata_country_name = Some (case n0 of None \<Rightarrow> ''Canada'' | Some n \<Rightarrow> n),
                GeoMetadata_region = rg\<rparr>"
  by (simp add: OfflineCO2Tracker_init_def BaseCO2Tracker_init_Inr get_geo_metadata_def)

text \<open>
  Claim C4 asks that the construction of an offline tracker fail when
  \<open>country_iso_code\<close> or \<open>country_name\<close> is absent. The constructor does not fail:
  with both absent it returns a tracker whose geo metadata are "CAN" and "Canada".
\<close>

theorem OfflineCO2Tracker_init_missing_identifiers:
  "OfflineCO2Tracker_init example_env None None None ''default'' 15 ''.'' True =
     Inr \<lparr>self_class = OfflineCO2Tracker ''CAN'' ''Canada'' None,
          self_project_name = ''default'', self_measure_power_secs = 15,
          self_start_time = None, self_output_dir = ''.'', self_total_energy = \<lparr>kwh = 0\<rparr>,
          self_scheduler = \<lparr>jobs = [15], state = STATE_STOPPED\<rparr>,
          self_is_gpu_available = True,
          persistence_objs = [FileOutput ''./emissions.csv'']\<rparr>"
  by (simp add: OfflineCO2Tracker_init_def BaseCO2Tracker_init_Inr example_env_def path_join_def)

section \<open>The decorator against the explicit API\<close>

lemma wrapped_fn_guarded:
  "wrapped_fn en pn od offline c0 n0 rg fn args readings w =
     (if offline \<and> c0 = None
      then (Inl (Exception ''Needs ISO Code of the Country for Offline mode''), w)
      else explicit_api en pn od offline c0 n0 rg fn args readings w)"
  by (simp add: wrapped_fn_def explicit_api_def construct_tracker_def start_fn_stop_def
      split: sum.splits)

lemmas run_defs =
  explicit_api_def construct_tracker_def start_fn_stop_def OfflineCO2Tracker_init_def
  CO2Tracker_init_def BaseCO2Tracker_init_Inr start_def scheduler_start_def call_fn_def
  fire_def measure_power_def Energy_from_power_and_time_def Energy_from_energy_def
  Energy_add_def stop_def scheduler_shutdown_def get_cloud_metadata_def get_geo_metadata_def
  Time_from_seconds_def assemble_def is_on_private_infra_def emit_def BaseOutput_out_def
  path_join_def Let_def example_fn_def

lemma explicit_api_example_missing_code:
  "explicit_api example_env ''default'' ''.'' True None None None example_fn 0
       [\<lparr>W = 100\<rparr>] example_world =
     (Inr None,
      \<lparr>clock = 1005, uuid_calls = 1,
       events = [Scheduler_start, Function_called, Scheduler_shutdown,
                 Compute_emissions \<lparr>kwh = 1 / 2400\<rparr>,
                 CO2Data_created example_canada_record,
                 Sink_out (FileOutput ''./emissions.csv'') example_canada_record]\<rparr>)"
  by (simp add: run_defs example_env_def example_factors_def example_world_def
      example_canada_record_def)

lemma explicit_api_example_france:
  "explicit_api example_env ''default'' ''.'' True (Some ''FRA'') (Some ''France'') None
       example_fn 0 [\<lparr>W = 100\<rparr>] example_world =
     (Inr None,
      \<lparr>clock = 1005, uuid_calls = 1,
       events = [Scheduler_start, Function_called, Scheduler_shutdown,
                 Compute_emissions \<lparr>kwh = 1 / 2400\<rparr>,
                 CO2Data_created example_france_record,
                 Sink_out (FileOutput ''./emissions.csv'') example_france_record]\<rparr>)"
  by (simp add: run_defs example_env_def example_factors_def example_world_def
      example_france_record_def)

text \<open>
  Claim C8, as amended. For every function and every argument list, the decorated function
  behaves as constructing the corresponding tracker (\<open>OfflineCO2Tracker\<close> when
  \<open>offline\<close>, \<open>CO2Tracker\<close> otherwise) and executing \<open>start()\<close>,
  \<open>fn(arguments)\<close>, \<open>stop()\<close> in that order, except when \<open>offline\<close> is set
  and \<open>country_iso_code\<close> is absent: then the wrapper raises before it constructs a
  tracker and \<open>fn\<close> is not called.
\<close>

theorem wrapped_fn_is_start_fn_stop:
  "wrapped_fn en pn od offline c0 n0 rg fn args readings w =
     (if offline \<and> c0 = None
      then (Inl (Exception ''Needs ISO Code of the Country for Offline mode''), w)
      else explicit_api en pn od offline c0 n0 rg fn args readings w)"
  by (rule wrapped_fn_guarded)

theorem wrapped_fn_is_start_fn_stop_witness:
  "\<not> (True \<and> Some ''FRA'' = (None :: string option))
   \<and> wrapped_fn example_env ''default'' ''.'' True (Some ''FRA'') (Some ''France'') None
        example_fn 0 [\<lparr>W = 100\<rparr>] example_world
     = explicit_api example_env ''default'' ''.'' True (Some ''FRA'') (Some ''France'') None
        example_fn 0 [\<lparr>W = 100\<rparr>] example_world
   \<and> explicit_api example_env ''default'' ''.'' True (Some ''FRA'') (Some ''France'') None
        example_fn 0 [\<lparr>W = 100\<rparr>] example_world
     = (Inr None,
        \<lparr>clock = 1005, uuid_calls = 1,
         events = [Scheduler_start, Function_called, Scheduler_shutdown,
                   Compute_emissions \<lparr>kwh = 1 / 2400\<rparr>,
                   CO2Data_created example_france_record,
                   Sink_out (FileOutput ''./emissions.csv'') example_france_record]\<rparr>)"
  using wrapped_fn_is_start_fn_stop [of example_env "''default''" "''.''" True "Some ''FRA''"
      "Some ''France''" None example_fn 0 "[\<lparr>W = 100\<rparr>]" example_world]
  by (simp add: explicit_api_example_france)

text \<open>
  Claim C8 without that exception fails: with \<open>offline\<close> set and no country code the
  wrapper raises and leaves the world untouched, while constructing the offline tracker and
  running \<open>start()\<close>, \<open>fn\<close>, \<open>stop()\<close> completes and writes a record for
  Canada.
\<close>

theorem wrapped_fn_missing_code_counterexample:
  "wrapped_fn example_env ''default'' ''.'' True None None None example_fn 0
       [\<lparr>W = 100\<rparr>] example_world
     = (Inl (Exception ''Needs ISO Code of the Country for Offline mode''), example_world)
   \<and> explicit_api example_env ''default'' ''.'' True None None None example_fn 0
       [\<lparr>W = 100\<rparr>] example_world
     = (Inr None,
        \<lparr>clock = 1005, uuid_calls = 1,
         events = [Scheduler_start, Function_called, Scheduler_shutdown,
                   Compute_emissions \<lparr>kwh = 1 / 2400\<rparr>,
                   CO2Data_created example_canada_record,
                   Sink_out (FileOutput ''./emissions.csv'') example_canada_record]\<rparr>)
   \<and> wrapped_fn example_env ''default'' ''.'' True None None None example_fn 0
       [\<lparr>W = 100\<rparr>] example_world
     \<noteq> explicit_api example_env ''default'' ''.'' True None None None example_fn 0
       [\<lparr>W = 100\<rparr>] example_world"
  by (simp add: wrapped_fn_guarded explicit_api_example_missing_code)

lemma wrapped_fn_result:
  "fst (wrapped_fn en pn od offline c0 n0 rg fn args readings w) = Inr r \<Longrightarrow> r = None"
  by (auto simp add: wrapped_fn_def split: if_splits sum.splits prod.splits)

text \<open>
  Claim C10. Whenever the wrapper returned by \<open>track_co2\<close> returns, it returns
  \<open>None\<close>: the value of \<open>fn\<close> and the emissions computed by \<open>stop()\<close> are
  discarded and never reach the caller.
\<close>

theorem wrapped_fn_returns_None:
  assumes "wrapped_fn en pn od offline c0 n0 rg fn args readings w = (Inr r, w')"
  shows "r = None"
  using assms wrapped_fn_result [of en pn od offline c0 n0 rg fn args readings w r] by simp

theorem wrapped_fn_returns_None_witness:
  "fst (example_fn 0 (emit Function_called (emit Scheduler_start example_world))) = Inr 1
   \<and> wrapped_fn example_env ''default'' ''.'' True (Some ''FRA'') (Some ''France'') None
        example_fn 0 [\<lparr>W = 100\<rparr>] example_world
     = (Inr None,
        \<lparr>clock = 1005, uuid_calls = 1,
         events = [Scheduler_start, Function_called, Scheduler_shutdown,
                   Compute_emissions \<lparr>kwh = 1 / 2400\<rparr>,
                   CO2Data_created example_france_record,
                   Sink_out (FileOutput ''./emissions.csv'') example_france_record]\<rparr>)"
proof -
  have e: "wrapped_fn example_env ''default'' ''.'' True (Some ''FRA'') (Some ''France'') None
        example_fn 0 [\<lparr>W = 100\<rparr>] example_world
     = (Inr None,
        \<lparr>clock = 1005, uuid_calls = 1,
         events = [Scheduler_start, Function_called, Scheduler_shutdown,
                   Compute_emissions \<lparr>kwh = 1 / 2400\<rparr>,
                   CO2Data_created example_france_record,
                   Sink_out (FileOutput ''./emissions.csv'') example_france_record]\<rparr>)"
    by (simp add: wrapped_fn_guarded explicit_api_example_france)
  from wrapped_fn_returns_None [OF e] e show ?thesis
    by (simp add: example_fn_def)
qed

section \<open>The emissions column of the bar chart\<close>

lemma cloud_row_rebuild:
  "\<lparr>provider = provider row, providerName = providerName row,
    region_col = region_col row, impact = impact row,
    countryName = countryName row\<rparr> = (row :: cloud_row)"
  by (cases row) simp

lemma add_emissions_column_length [simp]:
  "length (add_emissions_column net tbl) = length tbl"
  by (simp add: add_emissions_column_def)

lemma add_emissions_column_nth:
  "i < length tbl \<Longrightarrow>
   emissions_col (add_emissions_column net tbl ! i) = impact (tbl ! i) / 1000 * net
   \<and> cloud_row.truncate (add_emissions_column net tbl ! i) = tbl ! i"
  by (simp add: add_emissions_column_def kgs_per_kwh_from_g_per_kwh_def cloud_row.truncate_def
      cloud_row_rebuild)

lemma add_emissions_column_set:
  "r \<in> set (add_emissions_column net tbl) \<Longrightarrow>
   emissions_col r = impact r / 1000 * net \<and> cloud_row.truncate r \<in> set tbl"
  by (auto simp add: add_emissions_column_def kgs_per_kwh_from_g_per_kwh_def
      cloud_row.truncate_def cloud_row_rebuild)

lemma barchart_rows_subset:
  assumes "get_cloud_emissions_barchart_data tbl net oc cp cr = Inr (name, rows)"
  shows "set rows \<subseteq> set (add_emissions_column net tbl)"
proof (cases "oc = ''N''")
  case True
  with assms show ?thesis by (simp add: get_cloud_emissions_barchart_data_def)
next
  case False
  let ?ce = "add_emissions_column net tbl"
  from assms False
  have "rows = filter (\<lambda>r. region_col r = cr) ?ce
          @ sort_key emissions_col
              (filter (\<lambda>r. provider r = cp \<and> region_col r \<noteq> cr) ?ce)"
    by (simp add: get_cloud_emissions_barchart_data_def Let_def split: list.splits)
  then show ?thesis by auto
qed

text \<open>
  Claim C9. In \<open>get_cloud_emissions_barchart_data\<close> the emissions value computed for
  every row of the cloud emissions table is the row's impact factor in g CO2/kWh divided by
  1000 and multiplied by \<open>net_energy_consumed\<close>, with nothing applied to the product;
  every row of the returned frame is a row of the table with that value.
\<close>

theorem barchart_emissions_exact:
  "length (add_emissions_column net tbl) = length tbl
   \<and> (\<forall>i<length tbl.
         emissions_col (add_emissions_column net tbl ! i) = impact (tbl ! i) / 1000 * net
       \<and> cloud_row.truncate (add_emissions_column net tbl ! i) = tbl ! i)
   \<and> (\<forall>name rows.
         get_cloud_emissions_barchart_data tbl net oc cp cr = Inr (name, rows) \<longrightarrow>
         (\<forall>r\<in>set rows. emissions_col r = impact r / 1000 * net
                        \<and> cloud_row.truncate r \<in> set tbl))"
proof -
  have "emissions_col r = impact r / 1000 * net \<and> cloud_row.truncate r \<in> set tbl"
    if "get_cloud_emissions_barchart_data tbl net oc cp cr = Inr (name, rows)"
      and "r \<in> set rows" for name rows r
    using barchart_rows_subset [OF that(1)] that(2) add_emissions_column_set by blast
  then show ?thesis
    by (simp add: add_emissions_column_nth)
qed

theorem barchart_emissions_exact_witness:
  "get_cloud_emissions_barchart_data example_table 10 ''Y'' ''aws'' ''us-east-1'' =
     Inr (''Amazon Web Services'',
       [\<lparr>provider = ''aws'', providerName = ''Amazon Web Services'',
         region_col = ''us-east-1'', impact = 400, countryName = ''United States'',
         emissions_col = 4\<rparr>,
        \<lparr>provider = ''aws'', providerName = ''Amazon Web Services'',
         region_col = ''ca-central-1'', impact = 20, countryName = ''Canada'',
         emissions_col = 1 / 5\<rparr>,
        \<lparr>provider = ''aws'', providerName = ''Amazon Web Services'',
         region_col = ''eu-west-3'', impact = 50, countryName = ''France'',
         emissions_col = 1 / 2\<rparr>])
   \<and> map emissions_col (add_emissions_column 10 example_table) = [4, 1 / 2, 2, 1 / 5]
   \<and> 400 / 1000 * 10 = (4 :: real)"
  using barchart_emissions_exact [of 10 example_table "''Y''" "''aws''" "''us-east-1''"]
  by (simp add: get_cloud_emissions_barchart_data_def add_emissions_column_def
      kgs_per_kwh_from_g_per_kwh_def example_table_def Let_def)


end
